theory Spec2Isabelle
  imports Complex_Main
begin

section \<open>Python values used by the lookup client\<close>

text \<open>
  A Python \<open>str\<close> is modelled as a HOL \<open>string\<close>, one \<open>char\<close> per code point, so the
  model covers the code points below 256 (Latin-1, which holds every literal of the source).
  On that range the regular expression class \<open>\d\<close> is exactly \<open>0\<close>..\<open>9\<close>.
\<close>

definition is_digit :: "char \<Rightarrow> bool" where
  "is_digit c = (c \<in> set ''0123456789'')"

text \<open>\<open>str.isspace\<close> on the code points below 256.\<close>

definition is_space :: "char \<Rightarrow> bool" where
  "is_space c =
     (let n = of_char c :: nat
      in (9 \<le> n \<and> n \<le> 13) \<or> (28 \<le> n \<and> n \<le> 32) \<or> n = 133 \<or> n = 160)"

text \<open>\<open>str.lower\<close> on one code point below 256: \<open>A\<close>..\<open>Z\<close> and the accented capitals
  U+00C0..U+00DE (the multiplication sign U+00D7 apart) move up by 32.\<close>

definition lower_char :: "char \<Rightarrow> char" where
  "lower_char c =
     (let n = of_char c :: nat
      in if (65 \<le> n \<and> n \<le> 90) \<or> (192 \<le> n \<and> n \<le> 222 \<and> n \<noteq> 215)
         then char_of (n + 32) else c)"

definition py_lower :: "string \<Rightarrow> string" where
  "py_lower s = map lower_char s"

definition py_strip :: "string \<Rightarrow> string" where
  "py_strip s = rev (dropWhile is_space (rev (dropWhile is_space s)))"

text \<open>\<open>sub in s\<close> on strings.\<close>

fun starts_with :: "string \<Rightarrow> string \<Rightarrow> bool" where
  "starts_with [] s = True"
| "starts_with (p # ps) [] = False"
| "starts_with (p # ps) (c # cs) = (p = c \<and> starts_with ps cs)"

fun contains :: "string \<Rightarrow> string \<Rightarrow> bool" where
  "contains sub [] = (sub = [])"
| "contains sub (c # cs) = (starts_with sub (c # cs) \<or> contains sub cs)"

text \<open>The accented letters of the source's literals.\<close>

definition a_acute :: char where "a_acute = CHR 0xE1"
definition a_tilde :: char where "a_tilde = CHR 0xE3"
definition i_acute :: char where "i_acute = CHR 0xED"
definition u_acute :: char where "u_acute = CHR 0xFA"

definition str_Sim :: string where "str_Sim = ''Sim''"
definition str_Nao :: string where "str_Nao = ''N'' @ [a_tilde] @ ''o''"
definition str_nao_l :: string where "str_nao_l = ''n'' @ [a_tilde] @ ''o''"

text \<open>\<open>str(n)\<close> for an \<open>int\<close>.\<close>

fun str_nat :: "nat \<Rightarrow> string" where
  "str_nat n = (if n < 10 then [char_of (48 + n)] else str_nat (n div 10) @ [char_of (48 + n mod 10)])"

definition str_int :: "int \<Rightarrow> string" where
  "str_int i = (if i < 0 then CHR ''-'' # str_nat (nat (- i)) else str_nat (nat i))"

text \<open>A Python \<open>float\<close>: a finite value or one of the three special values.\<close>

datatype pyfloat = Finite real | PosInf | NegInf | NaN

text \<open>The values \<open>r.json()\<close> can return. A \<open>dict\<close> is an association list in insertion
  order (a Python dict has each key once).\<close>

datatype json =
    JNull
  | JBool bool
  | JInt int
  | JFloat pyfloat
  | JStr string
  | JList "json list"
  | JDict "(string \<times> json) list"

text \<open>Python truthiness, the test behind \<open>x or y\<close> and \<open>if x\<close>.\<close>

fun truthy :: "json \<Rightarrow> bool" where
  "truthy JNull = False"
| "truthy (JBool b) = b"
| "truthy (JInt i) = (i \<noteq> 0)"
| "truthy (JFloat f) = (f \<noteq> Finite 0)"
| "truthy (JStr s) = (s \<noteq> [])"
| "truthy (JList xs) = (xs \<noteq> [])"
| "truthy (JDict kvs) = (kvs \<noteq> [])"

definition py_or :: "json \<Rightarrow> json \<Rightarrow> json" where
  "py_or a b = (if truthy a then a else b)"

text \<open>The exceptions of the model, all subclasses of \<open>Exception\<close>. \<open>RequestException name msg\<close>
  stands for any instance of \<open>requests.RequestException\<close> or of a subclass, with
  \<open>type(e).__name__\<close> and \<open>str(e)\<close>; \<open>AttributeError msg\<close> carries its message, \<open>KeyError k\<close> the
  missing key, \<open>HTTPException\<close> its status code and detail; \<open>OtherException name msg\<close> is any
  other exception a library call raises.\<close>

datatype exn =
    RequestException string string
  | AttributeError string
  | KeyError string
  | HTTPException int string
  | OtherException string string

text \<open>\<open>type(v).__name__\<close>.\<close>

fun py_type_name :: "json \<Rightarrow> string" where
  "py_type_name JNull = ''NoneType''"
| "py_type_name (JBool b) = ''bool''"
| "py_type_name (JInt i) = ''int''"
| "py_type_name (JFloat f) = ''float''"
| "py_type_name (JStr s) = ''str''"
| "py_type_name (JList xs) = ''list''"
| "py_type_name (JDict kvs) = ''dict''"

definition no_attribute_get :: "json \<Rightarrow> exn" where
  "no_attribute_get v =
     AttributeError ([CHR 0x27] @ py_type_name v @ [CHR 0x27] @ '' object has no attribute ''
                       @ [CHR 0x27] @ ''get'' @ [CHR 0x27])"

text \<open>\<open>obj.get(k)\<close>: on a dict the value or \<open>None\<close>, on any other JSON value an
  \<open>AttributeError\<close>.\<close>

fun dict_get :: "json \<Rightarrow> string \<Rightarrow> exn + json" where
  "dict_get (JDict kvs) k = Inr (case map_of kvs k of None \<Rightarrow> JNull | Some v \<Rightarrow> v)"
| "dict_get j k = Inl (no_attribute_get j)"

section \<open>Reading the response: \<open>_as_sim_nao\<close>, \<open>_extract_optant_flag\<close>, \<open>_pick_razao_social\<close>\<close>

definition sim_tokens :: "string list" where
  "sim_tokens = [''sim'', ''s'', ''yes'', ''true'', ''1'', ''optante'']"

definition nao_tokens :: "string list" where
  "nao_tokens = [''nao'', str_nao_l, ''n'', ''no'', ''false'', ''0'', ''nao optante'',
                 str_nao_l @ '' optante'']"

fun as_sim_nao :: "json \<Rightarrow> string" where
  "as_sim_nao JNull = []"
| "as_sim_nao (JBool b) = (if b then str_Sim else str_Nao)"
| "as_sim_nao (JInt i) = (if i = 0 \<or> i = 1 then (if i = 1 then str_Sim else str_Nao) else [])"
| "as_sim_nao (JFloat f) =
     (if f = Finite 0 \<or> f = Finite 1 then (if f = Finite 1 then str_Sim else str_Nao) else [])"
| "as_sim_nao (JStr v) =
     (let s = py_lower (py_strip v)
      in if s \<in> set sim_tokens then str_Sim
         else if s \<in> set nao_tokens then str_Nao
         else if contains ''optante'' s \<and> \<not> contains ''nao'' s \<and> \<not> contains str_nao_l s
           then str_Sim
         else if contains str_nao_l s \<or> contains ''nao'' s then str_Nao
         else [])"
| "as_sim_nao (JList xs) = []"
| "as_sim_nao (JDict kvs) = []"

definition flag_keys :: "string list" where
  "flag_keys = [''optant'', ''opted'', ''is_optant'', ''isOptant'', ''is_opted'', ''option'',
                ''enabled'', ''mei'', ''active'', ''status'']"

text \<open>The special reading of a textual \<open>status\<close>: \<open>Some\<close> answer when one of the two early
  \<open>return\<close>s fires.\<close>

definition status_text :: "string \<Rightarrow> string option" where
  "status_text v =
     (let sv = py_lower (py_strip v)
      in if contains ''opt'' sv \<and> \<not> contains ''non'' sv \<and> \<not> contains ''nao'' sv
              \<and> \<not> contains str_nao_l sv then Some str_Sim
         else if contains ''non'' sv \<or> contains ''nao'' sv \<or> contains str_nao_l sv
           then Some str_Nao
         else None)"

text \<open>The first loop of \<open>_extract_optant_flag\<close> over the candidate keys; \<open>None\<close> when it
  ends without a \<open>return\<close>.\<close>

fun flag_by_key :: "(string \<times> json) list \<Rightarrow> string list \<Rightarrow> string option" where
  "flag_by_key obj [] = None"
| "flag_by_key obj (k # ks) =
     (case map_of obj k of
        None \<Rightarrow> flag_by_key obj ks
      | Some v \<Rightarrow>
          (case (if k = ''status'' then (case v of JStr t \<Rightarrow> status_text t | _ \<Rightarrow> None) else None) of
             Some out \<Rightarrow> Some out
           | None \<Rightarrow> (if as_sim_nao v \<noteq> [] then Some (as_sim_nao v) else flag_by_key obj ks)))"

text \<open>The fallback loop over \<open>obj.values()\<close>.\<close>

fun flag_by_value :: "json list \<Rightarrow> string" where
  "flag_by_value [] = []"
| "flag_by_value (v # vs) = (if as_sim_nao v \<noteq> [] then as_sim_nao v else flag_by_value vs)"

fun extract_optant_flag :: "json \<Rightarrow> string" where
  "extract_optant_flag (JDict obj) =
     (case flag_by_key obj flag_keys of
        Some out \<Rightarrow> out
      | None \<Rightarrow> flag_by_value (map snd obj))"
| "extract_optant_flag (JList xs) = []"
| "extract_optant_flag v = as_sim_nao v"

definition name_keys :: "string list" where
  "name_keys = [''name'', ''legal_name'', ''corporate_name'', ''razao_social'', ''company_name'',
                ''social_reason'']"

definition alias_keys :: "string list" where
  "alias_keys = [''alias'', ''trade_name'', ''fantasy_name'', ''nome_fantasia'']"

text \<open>One \<open>for k in [...]\<close> loop of \<open>_pick_razao_social\<close> over a dict \<open>company\<close>.\<close>

fun pick_first :: "(string \<times> json) list \<Rightarrow> string list \<Rightarrow> string option" where
  "pick_first company [] = None"
| "pick_first company (k # ks) =
     (case map_of company k of
        Some (JStr v) \<Rightarrow> (if py_strip v \<noteq> [] then Some (py_strip v) else pick_first company ks)
      | _ \<Rightarrow> pick_first company ks)"

definition pick_razao_social :: "json \<Rightarrow> exn + string" where
  "pick_razao_social data =
     (case dict_get (py_or data (JDict [])) ''company'' of
        Inl x \<Rightarrow> Inl x
      | Inr c \<Rightarrow>
          (case py_or c (JDict []) of
             JDict company \<Rightarrow>
               (case pick_first company name_keys of
                  Some v \<Rightarrow> Inr v
                | None \<Rightarrow>
                    (case pick_first company alias_keys of
                       Some v \<Rightarrow> Inr v
                     | None \<Rightarrow> Inr []))
           | v \<Rightarrow> Inl (no_attribute_get v)))"

section \<open>The world of a lookup: clock, cache table, sleeps and requests\<close>

text \<open>One row of the SQLite table \<open>cnpja_cache\<close>, without its primary key \<open>cnpj\<close> (the key
  of the map below). Every column is nullable.\<close>

record cache_row =
  c_razao_social :: "string option"
  c_simples_nacional :: "string option"
  c_simei :: "string option"
  c_data_consulta :: "string option"
  c_fetched_at :: "int option"

text \<open>The mutable world: \<open>clock\<close> is what \<open>time.time()\<close> reads, \<open>cache\<close> the table,
  \<open>slept\<close> the arguments of every \<open>time.sleep\<close> so far and \<open>requested\<close> the URLs of every
  \<open>requests.get\<close> so far, both oldest first. The model's clock moves only by sleeping.\<close>

record world =
  clock :: real
  cache :: "string \<rightharpoonup> cache_row"
  slept :: "real list"
  requested :: "string list"

text \<open>What an HTTP response offers to the code: \<open>r.status_code\<close>, \<open>r.headers.get("Retry-After")\<close>
  and what \<open>r.json()\<close> does (a value, or the exception it raises).\<close>

datatype response =
  Response (status_code: int) (retry_after: "string option") (json_body: "exn + json")

datatype http_outcome = Returns response | Raises exn

text \<open>The surroundings the code does not control: \<open>http_get n url\<close> is the outcome of the
  \<open>n\<close>-th call of \<open>requests.get\<close> (counted from 0), \<open>strftime t\<close> the text of
  \<open>datetime.now().strftime("%Y-%m-%d %H:%M:%S")\<close> when the clock reads \<open>t\<close> (it depends on the
  time zone), \<open>py_float s\<close> the builtin \<open>float(s)\<close>, \<open>None\<close> when it raises \<open>ValueError\<close>, and
  \<open>DEFAULT_CACHE_TTL_SECONDS\<close> the value read from the process environment at import
  (86400 when the variable is not set).\<close>

record env =
  http_get :: "nat \<Rightarrow> string \<Rightarrow> http_outcome"
  strftime :: "real \<Rightarrow> string"
  py_float :: "string \<Rightarrow> pyfloat option"
  DEFAULT_CACHE_TTL_SECONDS :: int

definition time_sleep :: "real \<Rightarrow> world \<Rightarrow> world" where
  "time_sleep d w = w\<lparr>clock := clock w + d, slept := slept w @ [d]\<rparr>"

text \<open>\<open>int(x)\<close> for a finite float \<open>x\<close>: truncation toward zero.\<close>

definition py_trunc :: "real \<Rightarrow> int" where
  "py_trunc x = (if 0 \<le> x then \<lfloor>x\<rfloor> else \<lceil>x\<rceil>)"

section \<open>The dict a lookup returns\<close>

text \<open>The six columns of a result, and the dict \<open>consultar_optante\<close> returns: the same six
  keys and the transient key \<open>_cached\<close>.\<close>

record result_row =
  cnpj :: string
  razao_social :: string
  simples_nacional :: string
  simei :: string
  data_consulta :: string
  erro :: string

record lookup_row = result_row +
  cached :: bool

definition error_row :: "string \<Rightarrow> string \<Rightarrow> string \<Rightarrow> lookup_row" where
  "error_row cnpj_clean now err =
     \<lparr>cnpj = cnpj_clean, razao_social = [], simples_nacional = [], simei = [],
      data_consulta = now, erro = err, cached = False\<rparr>"

section \<open>The cache: \<open>_cache_get\<close> and \<open>_cache_set\<close>\<close>

text \<open>\<open>re.fullmatch(r"\d{14}", s)\<close>.\<close>

definition fullmatch_d14 :: "string \<Rightarrow> bool" where
  "fullmatch_d14 s = (length s = 14 \<and> list_all is_digit s)"

text \<open>\<open>x or ""\<close> on a nullable text column.\<close>

definition or_empty :: "string option \<Rightarrow> string" where
  "or_empty x = (case x of None \<Rightarrow> [] | Some s \<Rightarrow> s)"

definition cache_get :: "string \<Rightarrow> int \<Rightarrow> world \<Rightarrow> lookup_row option" where
  "cache_get k ttl_seconds w =
     (let now_ts = py_trunc (clock w)
      in case cache w k of
           None \<Rightarrow> None
         | Some row \<Rightarrow>
             (let fetched_at = (case c_fetched_at row of None \<Rightarrow> 0 | Some t \<Rightarrow> t)
              in if ttl_seconds > 0 \<and> fetched_at > 0 \<and> now_ts - fetched_at > ttl_seconds
                 then None
                 else Some \<lparr>cnpj = k,
                            razao_social = or_empty (c_razao_social row),
                            simples_nacional = or_empty (c_simples_nacional row),
                            simei = or_empty (c_simei row),
                            data_consulta = or_empty (c_data_consulta row),
                            erro = [], cached = True\<rparr>))"

definition cache_set :: "lookup_row \<Rightarrow> world \<Rightarrow> world" where
  "cache_set payload w =
     (if \<not> fullmatch_d14 (cnpj payload) then w
      else w\<lparr>cache := (cache w)(cnpj payload \<mapsto>
             \<lparr>c_razao_social = Some (razao_social payload),
              c_simples_nacional = Some (simples_nacional payload),
              c_simei = Some (simei payload),
              c_data_consulta = Some (data_consulta payload),
              c_fetched_at = Some (py_trunc (clock w))\<rparr>)\<rparr>)"

section \<open>The lookup client: \<open>consultar_optante\<close>\<close>

text \<open>\<open>re.sub(r"\D+", "", s)\<close>.\<close>

definition clean_cnpj :: "string \<Rightarrow> string" where
  "clean_cnpj s = filter is_digit s"

definition OPEN_CNPJA_BASE :: string where
  "OPEN_CNPJA_BASE = ''https://open.cnpja.com/office''"

definition msg_invalid :: string where
  "msg_invalid = ''CNPJ inv'' @ [a_acute] @ ''lido (precisa ter 14 d'' @ [i_acute] @ ''gitos)''"

definition msg_rate_limit :: string where
  "msg_rate_limit = ''Rate limit excedido (API p'' @ [u_acute]
      @ ''blica: 5 consultas/min). Vou aguardar e tentar novamente.''"

definition msg_server :: "int \<Rightarrow> string" where
  "msg_server code = ''Erro HTTP '' @ str_int code @ '' (servidor) ao consultar CNPJ'' @ [a_acute]"

definition msg_client :: "int \<Rightarrow> string" where
  "msg_client code = ''Erro HTTP '' @ str_int code @ '' ao consultar CNPJ'' @ [a_acute]"

definition msg_network :: "string \<Rightarrow> string \<Rightarrow> string" where
  "msg_network name msg = ''Erro de rede: '' @ name @ '': '' @ msg"

text \<open>The computation of \<open>wait_s\<close> from the \<open>Retry-After\<close> header: 60 when the header is
  absent or empty and when \<open>int(float(retry_after))\<close> raises.\<close>

definition retry_wait :: "env \<Rightarrow> string option \<Rightarrow> int" where
  "retry_wait e hdr =
     (case hdr of
        None \<Rightarrow> 60
      | Some s \<Rightarrow>
          (if s = [] then 60
           else (case py_float e s of
                   Some (Finite x) \<Rightarrow> py_trunc x
                 | _ \<Rightarrow> 60)))"

text \<open>\<open>d.get(k)\<close> where \<open>d\<close> is already known to be a dict (an earlier \<open>d.get\<close> returned).\<close>

definition get_or_none :: "json \<Rightarrow> string \<Rightarrow> json" where
  "get_or_none d k = (case dict_get d k of Inl x \<Rightarrow> JNull | Inr v \<Rightarrow> v)"

definition simples_obj :: "json \<Rightarrow> json \<Rightarrow> json" where
  "simples_obj company data =
     py_or (get_or_none company ''simples'')
       (py_or (get_or_none company ''simples_nacional'') (get_or_none data ''simples''))"

definition simei_obj :: "json \<Rightarrow> json \<Rightarrow> json" where
  "simei_obj company data =
     py_or (get_or_none company ''simei'')
       (py_or (get_or_none company ''mei'')
          (py_or (get_or_none data ''simei'') (get_or_none data ''mei'')))"

text \<open>The statements from \<open>data = r.json() or {}\<close> to the construction of \<open>payload\<close>. The
  first \<open>.get\<close> on \<open>data\<close> and the first on \<open>company\<close> raise \<open>AttributeError\<close> when the
  value is not a dict.\<close>

definition parse_payload :: "string \<Rightarrow> string \<Rightarrow> json \<Rightarrow> exn + lookup_row" where
  "parse_payload cnpj_clean now j =
     (let data = py_or j (JDict [])
      in case dict_get data ''company'' of
           Inl x \<Rightarrow> Inl x
         | Inr c \<Rightarrow>
             (let company = py_or c (JDict [])
              in case dict_get company ''simples'' of
                   Inl x \<Rightarrow> Inl x
                 | Inr s1 \<Rightarrow>
                     (case pick_razao_social data of
                        Inl x \<Rightarrow> Inl x
                      | Inr name \<Rightarrow>
                          Inr \<lparr>cnpj = cnpj_clean, razao_social = name,
                               simples_nacional = extract_optant_flag (simples_obj company data),
                               simei = extract_optant_flag (simei_obj company data),
                               data_consulta = now, erro = [], cached = False\<rparr>)))"

text \<open>How one pass through the body of \<open>try\<close> ends: \<open>continue\<close> with a new \<open>last_err\<close>, a
  \<open>return\<close>, or an exception.\<close>

datatype attempt_result =
    Continue string world
  | Return lookup_row world
  | Raise exn world

definition attempt_body ::
  "env \<Rightarrow> string \<Rightarrow> string \<Rightarrow> bool \<Rightarrow> nat \<Rightarrow> nat \<Rightarrow> world \<Rightarrow> attempt_result" where
  "attempt_body e cnpj_clean now use_cache attempts attempt w =
     (let url = OPEN_CNPJA_BASE @ ''/'' @ cnpj_clean;
          w1 = w\<lparr>requested := requested w @ [url]\<rparr>
      in case http_get e (length (requested w)) url of
           Raises x \<Rightarrow> Raise x w1
         | Returns r \<Rightarrow>
             (if status_code r = 429 then
                (if attempt < attempts
                 then Continue msg_rate_limit
                        (time_sleep (of_int (max 1 (min 90 (retry_wait e (retry_after r))))) w1)
                 else Return (error_row cnpj_clean now msg_rate_limit) w1)
              else if status_code r \<ge> 500 then
                (if attempt < attempts
                 then Continue (msg_server (status_code r))
                        (time_sleep (of_nat (min 20 (2 ^ attempt))) w1)
                 else Return (error_row cnpj_clean now (msg_server (status_code r))) w1)
              else if status_code r \<ge> 400 then
                Return (error_row cnpj_clean now (msg_client (status_code r))) w1
              else
                (case json_body r of
                   Inl x \<Rightarrow> Raise x w1
                 | Inr j \<Rightarrow>
                     (case parse_payload cnpj_clean now j of
                        Inl x \<Rightarrow> Raise x w1
                      | Inr payload \<Rightarrow>
                          Return payload (if use_cache then cache_set payload w1 else w1)))))"

text \<open>The loop \<open>for attempt in range(1, attempts + 1)\<close> with its handler
  \<open>except requests.RequestException\<close>, and the fallback \<open>return\<close> after the loop. Any other
  exception leaves the function.\<close>

function retry_loop ::
  "env \<Rightarrow> string \<Rightarrow> string \<Rightarrow> bool \<Rightarrow> nat \<Rightarrow> string \<Rightarrow> nat \<Rightarrow> world
     \<Rightarrow> (exn + lookup_row) \<times> world" where
  "retry_loop e cnpj_clean now use_cache attempts last_err attempt w =
     (if attempt > attempts
      then (Inr (error_row cnpj_clean now
                   (if last_err \<noteq> [] then last_err else ''Falha desconhecida'')), w)
      else (case attempt_body e cnpj_clean now use_cache attempts attempt w of
              Continue le w' \<Rightarrow>
                retry_loop e cnpj_clean now use_cache attempts le (Suc attempt) w'
            | Return r w' \<Rightarrow> (Inr r, w')
            | Raise x w' \<Rightarrow>
                (case x of
                   RequestException name msg \<Rightarrow>
                     (if attempt < attempts
                      then retry_loop e cnpj_clean now use_cache attempts (msg_network name msg)
                             (Suc attempt) (time_sleep (of_nat (min 15 (2 ^ attempt))) w')
                      else (Inr (error_row cnpj_clean now (msg_network name msg)), w'))
                 | _ \<Rightarrow> (Inl x, w'))))"
  by pat_completeness auto
termination
  by (relation "measure (\<lambda>(e, c, n, u, attempts, le, attempt, w). Suc attempts - attempt)") auto

text \<open>\<open>consultar_optante(cnpj, use_cache=..., cache_ttl_seconds=..., max_retries=...)\<close>: the
  result or the exception that leaves the call, and the world after it. The parameters
  \<open>timeout\<close> and \<open>cache_path\<close> only configure the HTTP library and the location of the table.\<close>

definition consultar_optante ::
  "env \<Rightarrow> string \<Rightarrow> bool \<Rightarrow> int \<Rightarrow> int \<Rightarrow> world \<Rightarrow> (exn + lookup_row) \<times> world" where
  "consultar_optante e cnpj_in use_cache cache_ttl_seconds max_retries w =
     (let cnpj_clean = clean_cnpj cnpj_in;
          now = strftime e (clock w)
      in if \<not> fullmatch_d14 cnpj_clean
         then (Inr (error_row cnpj_clean now msg_invalid), w)
         else (case (if use_cache then cache_get cnpj_clean cache_ttl_seconds w else None) of
                 Some hit \<Rightarrow> (Inr hit, w)
               | None \<Rightarrow>
                   retry_loop e cnpj_clean now use_cache (nat (max 1 max_retries)) [] 1 w))"

section \<open>The batch runner: \<open>consultar_optante_lote\<close>\<close>

definition PUBLIC_API_MIN_DELAY :: real where
  "PUBLIC_API_MIN_DELAY = 12.5"

text \<open>What the runner reads of one row of \<open>df_validos.attrs["invalidos"]\<close>:
  \<open>str(row.get("cnpj", ""))\<close> and \<open>str(row.get("cnpj_input", ""))\<close>.\<close>

record invalid_row =
  inv_cnpj :: string
  inv_cnpj_input :: string

text \<open>What the runner reads of the data frame: the column \<open>cnpj\<close> when there is one (a cell
  is \<open>None\<close> when \<open>dropna\<close> drops it, else its \<open>str\<close>) and \<open>attrs.get("invalidos")\<close>.\<close>

record dataframe =
  cnpj_column :: "string option list option"
  attrs_invalidos :: "invalid_row list option"

definition cnpjs_of :: "dataframe option \<Rightarrow> string list" where
  "cnpjs_of df_validos =
     (case df_validos of
        None \<Rightarrow> []
      | Some df \<Rightarrow>
          (case cnpj_column df of
             None \<Rightarrow> []
           | Some col \<Rightarrow> concat (map (\<lambda>cell. case cell of None \<Rightarrow> [] | Some v \<Rightarrow> [v]) col)))"

definition invalidos_of :: "dataframe option \<Rightarrow> invalid_row list option" where
  "invalidos_of df_validos = (case df_validos of None \<Rightarrow> None | Some df \<Rightarrow> attrs_invalidos df)"

text \<open>The variables of a run. \<open>polls\<close> counts the calls of \<open>should_cancel\<close> so far, \<open>wld\<close> is the
  world of the lookups and \<open>cbs\<close> the state the progress callback works on.\<close>

record 'st run_state =
  resultados :: "result_row list"
  done_n :: nat
  polls :: nat
  wld :: world
  cbs :: 'st

text \<open>A progress callback gets \<open>done\<close> and \<open>total\<close> and its state; it returns the exception it
  raised, if any, and its state afterwards. \<open>should_cancel\<close> reads a signal the run does not
  control: it is given as the answers of its successive calls.\<close>

type_synonym 'st progress_cb = "nat \<Rightarrow> nat \<Rightarrow> 'st \<Rightarrow> exn option \<times> 'st"

text \<open>\<open>_tick\<close>: the callback's exception, if any, is dropped.\<close>

definition tick :: "'st progress_cb option \<Rightarrow> nat \<Rightarrow> 'st run_state \<Rightarrow> 'st run_state" where
  "tick progress_cb tot s =
     (case progress_cb of
        None \<Rightarrow> s
      | Some cb \<Rightarrow> s\<lparr>cbs := snd (cb (done_n s) tot (cbs s))\<rparr>)"

text \<open>\<open>should_cancel and should_cancel()\<close>: the answer, and the state with the call counted.\<close>

definition poll_cancel :: "(nat \<Rightarrow> bool) option \<Rightarrow> 'st run_state \<Rightarrow> bool \<times> 'st run_state" where
  "poll_cancel should_cancel s =
     (case should_cancel of
        None \<Rightarrow> (False, s)
      | Some f \<Rightarrow> (f (polls s), s\<lparr>polls := Suc (polls s)\<rparr>))"

text \<open>The loop \<open>for cnpj in cnpjs\<close>. The first component is the exception that left the loop, if
  any. The lookup is called with its defaults: cache on, the default ttl, 3 attempts.\<close>

fun lote_loop ::
  "env \<Rightarrow> real \<Rightarrow> 'st progress_cb option \<Rightarrow> (nat \<Rightarrow> bool) option \<Rightarrow> nat \<Rightarrow> string list
     \<Rightarrow> 'st run_state \<Rightarrow> exn option \<times> 'st run_state" where
  "lote_loop e sleep_seconds progress_cb should_cancel tot [] s = (None, s)"
| "lote_loop e sleep_seconds progress_cb should_cancel tot (c # cs) s =
     (case poll_cancel should_cancel s of
        (True, s1) \<Rightarrow> (None, s1)
      | (False, s1) \<Rightarrow>
          (case consultar_optante e c True (DEFAULT_CACHE_TTL_SECONDS e) 3 (wld s1) of
             (Inl x, w') \<Rightarrow> (Some x, s1\<lparr>wld := w'\<rparr>)
           | (Inr r, w') \<Rightarrow>
               (let s2 = s1\<lparr>wld := w', resultados := resultados s1 @ [result_row.truncate r],
                            done_n := Suc (done_n s1)\<rparr>;
                    s3 = tick progress_cb tot s2;
                    s4 = (if \<not> cached r
                          then s3\<lparr>wld := time_sleep (max 0 sleep_seconds) (wld s3)\<rparr>
                          else s3)
                in lote_loop e sleep_seconds progress_cb should_cancel tot cs s4)))"

text \<open>The loop over the invalid rows.\<close>

fun invalid_loop ::
  "env \<Rightarrow> 'st progress_cb option \<Rightarrow> nat \<Rightarrow> invalid_row list \<Rightarrow> 'st run_state \<Rightarrow> 'st run_state" where
  "invalid_loop e progress_cb tot [] s = s"
| "invalid_loop e progress_cb tot (row # rows) s =
     (let s1 = s\<lparr>resultados := resultados s @
                   [\<lparr>cnpj = (if inv_cnpj row \<noteq> [] then inv_cnpj row else inv_cnpj_input row),
                     razao_social = [], simples_nacional = [], simei = [],
                     data_consulta = strftime e (clock (wld s)),
                     erro = msg_invalid\<rparr>],
                 done_n := Suc (done_n s)\<rparr>
      in invalid_loop e progress_cb tot rows (tick progress_cb tot s1))"

text \<open>\<open>consultar_optante_lote(df_validos, sleep_seconds, progress_cb, should_cancel)\<close>, started
  in world \<open>w\<close> with callback state \<open>st\<close>: the rows of the returned frame or the exception that
  left the call, and the variables at that moment. \<open>sleep_seconds\<close> is a finite float.\<close>

definition consultar_optante_lote ::
  "env \<Rightarrow> dataframe option \<Rightarrow> real \<Rightarrow> 'st progress_cb option \<Rightarrow> (nat \<Rightarrow> bool) option
     \<Rightarrow> world \<Rightarrow> 'st \<Rightarrow> (exn + result_row list) \<times> 'st run_state" where
  "consultar_optante_lote e df_validos sleep_seconds progress_cb should_cancel w st =
     (let cnpjs = cnpjs_of df_validos;
          invalidos = invalidos_of df_validos;
          total_invalidos = (case invalidos of None \<Rightarrow> 0 | Some rows \<Rightarrow> length rows);
          tot = length cnpjs + total_invalidos;
          sleep_seconds' = max PUBLIC_API_MIN_DELAY sleep_seconds;
          s0 = tick progress_cb tot
                 \<lparr>resultados = [], done_n = 0, polls = 0, wld = w, cbs = st\<rparr>
      in case lote_loop e sleep_seconds' progress_cb should_cancel tot cnpjs s0 of
           (Some x, s1) \<Rightarrow> (Inl x, s1)
         | (None, s1) \<Rightarrow>
             (case poll_cancel should_cancel s1 of
                (True, s2) \<Rightarrow> (Inr (resultados s2), s2)
              | (False, s2) \<Rightarrow>
                  (let s3 = invalid_loop e progress_cb tot
                              (case invalidos of None \<Rightarrow> [] | Some rows \<Rightarrow> rows) s2
                   in (Inr (resultados s3), s3))))"

section \<open>Writing the result file: \<open>build_output_bytes\<close>\<close>

text \<open>\<open>re.sub\<close> with the pattern the source writes, \<open>r"\\D+"\<close>: a backslash followed by one or
  more letters \<open>D\<close>.\<close>

function strip_backslash_D :: "string \<Rightarrow> string" where
  "strip_backslash_D [] = []"
| "strip_backslash_D (c # cs) =
     (if c = CHR 0x5C \<and> cs \<noteq> [] \<and> hd cs = CHR ''D''
      then strip_backslash_D (dropWhile (\<lambda>d. d = CHR ''D'') cs)
      else c # strip_backslash_D cs)"
  by pat_completeness auto
termination
  by (relation "measure length") (auto simp: le_imp_less_Suc length_dropWhile_le)

text \<open>\<open>str.zfill(14)\<close>: zeros on the left, after a leading sign.\<close>

definition zfill14 :: "string \<Rightarrow> string" where
  "zfill14 s =
     (if length s \<ge> 14 then s
      else (case s of
              c # cs \<Rightarrow>
                (if c = CHR ''+'' \<or> c = CHR ''-''
                 then c # replicate (14 - length s) CHR ''0'' @ cs
                 else replicate (14 - length s) CHR ''0'' @ s)
            | [] \<Rightarrow> replicate 14 CHR ''0''))"

text \<open>The bytes of a file are kept symbolic: the format and the rows pandas serialises (a CSV file
  starts with its header line and an XLSX file is an archive, so neither is empty).\<close>

datatype file_bytes = CsvFile "result_row list" | XlsxFile "result_row list"

definition build_output_bytes :: "result_row list \<Rightarrow> string \<Rightarrow> exn + file_bytes" where
  "build_output_bytes df_out output =
     (let out = py_strip (py_lower output);
          rows = map (\<lambda>r. r\<lparr>cnpj := zfill14 (strip_backslash_D (cnpj r))\<rparr>) df_out
      in if out = ''csv'' then Inr (CsvFile rows)
         else if out = ''xlsx'' then Inr (XlsxFile rows)
         else Inl (HTTPException 400 ''output deve ser csv ou xlsx''))"

section \<open>The job manager: \<open>criar_lote\<close>, \<open>processar_job\<close>, \<open>cancelar\<close>\<close>

datatype status = Queued | Running | Canceling | Canceled | Done | Error

text \<open>An entry of \<open>JOBS\<close>. \<open>job_done\<close> is the key \<open>done\<close>, \<open>job_cancel_event\<close> is whether the
  \<open>threading.Event\<close> is set.\<close>

record job =
  job_status :: status
  job_progress :: nat
  job_total :: nat
  job_done :: bool
  job_file_bytes :: "file_bytes option"
  job_file_name :: string
  job_error :: "string option"
  job_cancel_event :: bool

type_synonym jobs = "string \<rightharpoonup> job"

text \<open>The part of \<open>criar_lote\<close> after the upload is parsed: \<open>df\<close> is the frame
  \<open>read_input_file_to_df\<close> returned and \<open>job_id\<close> the fresh \<open>uuid4\<close>. It returns the new table and
  the arguments of the task it schedules. The detail of the status 500 leaves out the list of
  columns the source appends.\<close>

definition criar_lote ::
  "string \<Rightarrow> real \<Rightarrow> dataframe \<Rightarrow> string \<Rightarrow> jobs
     \<Rightarrow> exn + (jobs \<times> string \<times> dataframe \<times> string \<times> real)" where
  "criar_lote output sleep_seconds df job_id JOBS =
     (let out = py_strip (py_lower output)
      in if out \<noteq> ''csv'' \<and> out \<noteq> ''xlsx''
         then Inl (HTTPException 400 ''output deve ser csv ou xlsx'')
         else
           (let sleep_seconds' = max 12.5 sleep_seconds
            in if cnpj_column df = None
               then Inl (HTTPException 500 (''DataFrame sem coluna '' @ [CHR 0x27] @ ''cnpj''
                                              @ [CHR 0x27] @ ''.''))
               else
                 (let cnpjs = cnpjs_of (Some df);
                      total_invalidos =
                        (case attrs_invalidos df of None \<Rightarrow> 0 | Some rows \<Rightarrow> length rows)
                  in if cnpjs = [] \<and> total_invalidos = 0
                     then Inl (HTTPException 400
                                 (''Nenhum CNPJ encontrado no arquivo (v'' @ [a_acute]
                                  @ ''lido ou inv'' @ [a_acute] @ ''lido).''))
                     else Inr (JOBS(job_id \<mapsto>
                                 \<lparr>job_status = Queued, job_progress = 0,
                                  job_total = length cnpjs + total_invalidos,
                                  job_done = False, job_file_bytes = None,
                                  job_file_name = ''resultado.'' @ out,
                                  job_error = None, job_cancel_event = False\<rparr>),
                               job_id, df, out, sleep_seconds'))))"

text \<open>The callback \<open>progress_cb\<close> of \<open>processar_job\<close>; \<open>JOBS[job_id]\<close> raises \<open>KeyError\<close> for an
  unknown id.\<close>

definition job_progress_cb :: "string \<Rightarrow> jobs progress_cb" where
  "job_progress_cb job_id d tot JOBS =
     (case JOBS job_id of
        None \<Rightarrow> (Some (KeyError job_id), JOBS)
      | Some j \<Rightarrow> (None, JOBS(job_id \<mapsto> j\<lparr>job_total := tot, job_progress := d\<rparr>)))"

text \<open>The handler \<open>except Exception\<close> of \<open>processar_job\<close>; \<open>msg\<close> is the text
  \<open>f"{type(e).__name__}: {e}"\<close>.\<close>

definition exn_text :: "exn \<Rightarrow> string" where
  "exn_text x =
     (case x of
        RequestException name msg \<Rightarrow> name @ '': '' @ msg
      | AttributeError msg \<Rightarrow> ''AttributeError: '' @ msg
      | KeyError k \<Rightarrow> ''KeyError: '' @ [CHR 0x27] @ k @ [CHR 0x27]
      | HTTPException code detail \<Rightarrow> ''HTTPException: '' @ str_int code @ '': '' @ detail
      | OtherException name msg \<Rightarrow> name @ '': '' @ msg)"

definition job_failed :: "string \<Rightarrow> exn \<Rightarrow> jobs \<Rightarrow> exn + jobs" where
  "job_failed job_id x JOBS =
     (case JOBS job_id of
        None \<Rightarrow> Inl (KeyError job_id)
      | Some j \<Rightarrow>
          Inr (JOBS(job_id \<mapsto> j\<lparr>job_status := Error, job_error := Some (exn_text x),
                                 job_done := True\<rparr>)))"

text \<open>\<open>processar_job(job_id, df_validos, output, sleep_seconds)\<close> as one sequential run.
  Requests that arrive while it runs are seen by it only through the cancellation event;
  \<open>ev n\<close> is what the \<open>n\<close>-th reading of \<open>cancel_event.is_set()\<close> by this run returns (the runner's
  calls of \<open>should_cancel\<close>, then the reading that picks the final status). The result is the
  table with the writes of this run and the world afterwards, or the exception that leaves the
  coroutine.\<close>

definition processar_job ::
  "env \<Rightarrow> string \<Rightarrow> dataframe option \<Rightarrow> string \<Rightarrow> real \<Rightarrow> (nat \<Rightarrow> bool) \<Rightarrow> jobs \<Rightarrow> world
     \<Rightarrow> (exn + jobs) \<times> world" where
  "processar_job e job_id df_validos output sleep_seconds ev JOBS w =
     (case JOBS job_id of
        None \<Rightarrow> (job_failed job_id (KeyError job_id) JOBS, w)
      | Some j \<Rightarrow>
          (case consultar_optante_lote e df_validos sleep_seconds
                  (Some (job_progress_cb job_id)) (Some ev) w
                  (JOBS(job_id \<mapsto> j\<lparr>job_status := Running\<rparr>)) of
             (Inl x, s) \<Rightarrow> (job_failed job_id x (cbs s), wld s)
           | (Inr df_out, s) \<Rightarrow>
               (case build_output_bytes df_out output of
                  Inl x \<Rightarrow> (job_failed job_id x (cbs s), wld s)
                | Inr file \<Rightarrow>
                    (case cbs s job_id of
                       None \<Rightarrow> (job_failed job_id (KeyError job_id) (cbs s), wld s)
                     | Some j1 \<Rightarrow>
                         (let j2 = j1\<lparr>job_file_bytes := Some file, job_done := True\<rparr>;
                              j3 = (if ev (polls s)
                                    then j2\<lparr>job_status := Canceled\<rparr>
                                    else j2\<lparr>job_status := Done, job_progress := job_total j2\<rparr>)
                          in (Inr ((cbs s)(job_id \<mapsto> j3)), wld s))))))"

definition msg_not_found :: string where
  "msg_not_found = ''job n'' @ [a_tilde] @ ''o encontrado''"

definition msg_not_ready :: string where
  "msg_not_ready = ''Arquivo ainda n'' @ [a_tilde] @ ''o est'' @ [a_acute] @ '' pronto''"

text \<open>\<open>cancelar(job_id)\<close>: the status of the JSON answer and the table afterwards, or the
  \<open>HTTPException\<close> for an unknown id.\<close>

definition cancelar :: "string \<Rightarrow> jobs \<Rightarrow> exn + (status \<times> jobs)" where
  "cancelar job_id JOBS =
     (case JOBS job_id of
        None \<Rightarrow> Inl (HTTPException 404 msg_not_found)
      | Some j \<Rightarrow>
          (if job_done j then Inr (job_status j, JOBS)
           else
             (let j1 = j\<lparr>job_cancel_event := True\<rparr>;
                  j2 = (if job_status j1 = Queued \<or> job_status j1 = Running
                        then j1\<lparr>job_status := Canceling\<rparr> else j1)
              in Inr (Canceling, JOBS(job_id \<mapsto> j2)))))"

text \<open>\<open>download(job_id)\<close>: the bytes served, or the \<open>HTTPException\<close>.\<close>

definition download :: "string \<Rightarrow> jobs \<Rightarrow> exn + file_bytes" where
  "download job_id JOBS =
     (case JOBS job_id of
        None \<Rightarrow> Inl (HTTPException 404 msg_not_found)
      | Some j \<Rightarrow>
          (case job_file_bytes j of
             Some file \<Rightarrow>
               (if job_done j then Inr file
                else Inl (HTTPException 409 msg_not_ready))
           | None \<Rightarrow> Inl (HTTPException 409 msg_not_ready)))"

section \<open>Predicates used in the statements\<close>





text \<open>The two shapes of a row that did not come from the cache: a payload read from a response,
  with an empty \<open>erro\<close>, or an error row, with a message.\<close>

definition row_ok :: "string \<Rightarrow> string \<Rightarrow> lookup_row \<Rightarrow> bool" where
  "row_ok c now r =
     ((erro r = [] \<and> (\<exists>j. parse_payload c now j = Inr r)) \<or>
      (erro r \<noteq> [] \<and> r = error_row c now (erro r)))"


text \<open>A callback that records its arguments: the sequence of \<open>(done, total)\<close> a run reports.\<close>

definition record_cb :: "(nat \<times> nat) list progress_cb" where
  "record_cb d tot reported = (None, reported @ [(d, tot)])"

text \<open>\<open>total\<close> as the runner and \<open>criar_lote\<close> compute it.\<close>

definition total_of :: "dataframe option \<Rightarrow> nat" where
  "total_of df =
     length (cnpjs_of df) + (case invalidos_of df of None \<Rightarrow> 0 | Some rows \<Rightarrow> length rows)"

section \<open>Example inputs\<close>

text \<open>Identifiers, worlds, surroundings, frames and jobs on which the statements below are
  evaluated.\<close>

definition ex_cnpj :: string where "ex_cnpj = ''12.345.678/0001-95''"

definition ex_world :: world where
  "ex_world = \<lparr>clock = 100, cache = Map.empty, slept = [], requested = []\<rparr>"


definition ex_env_429 :: env where
  "ex_env_429 =
     \<lparr>http_get = (\<lambda>n url.
        if n = 0 then Returns (Response 429 (Some ''7.9'') (Inl (OtherException ''JSONDecodeError'' ''no body'')))
        else Returns (Response 200 None
               (Inr (JDict [(''company'', JDict [(''name'', JStr '' ACME ''),
                                                  (''simples'', JDict [(''optant'', JBool True)])])])))),
      strftime = (\<lambda>t. if t = 100 then ''2024-01-01 00:00:00'' else ''2024-01-01 00:10:00''),
      py_float = (\<lambda>s. if s = ''7.9'' then Some (Finite 7.9) else None),
      DEFAULT_CACHE_TTL_SECONDS = 86400\<rparr>"

definition ex_resp_429 :: response where
  "ex_resp_429 = Response 429 (Some ''7.9'') (Inl (OtherException ''JSONDecodeError'' ''no body''))"

definition ex_world_cached :: world where
  "ex_world_cached =
     \<lparr>clock = 700,
      cache = [''12345678000195'' \<mapsto>
                 \<lparr>c_razao_social = Some ''ACME'', c_simples_nacional = Some ''Sim'',
                  c_simei = Some [], c_data_consulta = Some ''2024-01-01 00:00:00'',
                  c_fetched_at = Some 100\<rparr>],
      slept = [], requested = []\<rparr>"

definition ex_payload :: lookup_row where
  "ex_payload =
     \<lparr>cnpj = ''12345678000195'', razao_social = ''ACME'', simples_nacional = ''Sim'',
      simei = [], data_consulta = ''1970-01-01 00:00:00'', erro = [], cached = False\<rparr>"

definition ex_world_epoch :: world where
  "ex_world_epoch = \<lparr>clock = 0, cache = Map.empty, slept = [], requested = []\<rparr>"

definition ex_env_ok :: env where
  "ex_env_ok =
     \<lparr>http_get = (\<lambda>n url. Returns (Response 200 None
               (Inr (JDict [(''company'', JDict [(''name'', JStr ''ACME'')])])))),
      strftime = (\<lambda>t. ''2024-01-01 00:00:00''),
      py_float = (\<lambda>s. None), DEFAULT_CACHE_TTL_SECONDS = 86400\<rparr>"


definition ex_state :: "unit run_state" where
  "ex_state = \<lparr>resultados = [], done_n = 0, polls = 0, wld = ex_world, cbs = ()\<rparr>"

definition ex_job_done :: job where
  "ex_job_done =
     \<lparr>job_status = Done, job_progress = 2, job_total = 2, job_done = True,
      job_file_bytes = Some (CsvFile []), job_file_name = ''resultado.csv'',
      job_error = None, job_cancel_event = False\<rparr>"

definition ex_job_running :: job where
  "ex_job_running =
     \<lparr>job_status = Running, job_progress = 1, job_total = 2, job_done = False,
      job_file_bytes = None, job_file_name = ''resultado.csv'',
      job_error = None, job_cancel_event = False\<rparr>"

definition ex_jobs :: jobs where
  "ex_jobs = [''a'' \<mapsto> ex_job_done, ''b'' \<mapsto> ex_job_running]"

definition ex_df_mixed :: dataframe where
  "ex_df_mixed =
     \<lparr>cnpj_column = Some [Some ''12345678000195''],
      attrs_invalidos = Some [\<lparr>inv_cnpj = ''123'', inv_cnpj_input = ''1-2-3''\<rparr>]\<rparr>"

definition ex_job_queued :: job where
  "ex_job_queued =
     \<lparr>job_status = Queued, job_progress = 0, job_total = 2, job_done = False,
      job_file_bytes = None, job_file_name = ''resultado.csv'',
      job_error = None, job_cancel_event = False\<rparr>"

definition ex_df_two :: dataframe where
  "ex_df_two =
     \<lparr>cnpj_column = Some [Some ''12345678000195'', Some ''11222333000181''],
      attrs_invalidos = Some [\<lparr>inv_cnpj = ''123'', inv_cnpj_input = ''1-2-3''\<rparr>]\<rparr>"

text \<open>The event is set between the first and the second reading.\<close>

definition ex_ev :: "nat \<Rightarrow> bool" where
  "ex_ev n = (1 \<le> n)"

section \<open>Properties of the lookup client\<close>

declare retry_loop.simps [simp del]

lemma parse_payload_Inr:
  assumes "parse_payload c now j = Inr p"
  shows "cnpj p = c \<and> data_consulta p = now \<and> erro p = [] \<and> \<not> cached p"
  using assms by (simp add: parse_payload_def Let_def split: sum.splits) auto


lemma msgs_nonempty:
  "msg_invalid \<noteq> []" "msg_rate_limit \<noteq> []" "msg_server n \<noteq> []" "msg_client n \<noteq> []"
  "msg_network a b \<noteq> []"
  by (simp_all add: msg_invalid_def msg_rate_limit_def msg_server_def msg_client_def msg_network_def)

lemma row_ok_error: "m \<noteq> [] \<Longrightarrow> row_ok c now (error_row c now m)"
  by (simp add: row_ok_def error_row_def)

lemma attempt_body_Return:
  assumes "attempt_body e c now uc attempts attempt w = Return r w'"
  shows "row_ok c now r"
proof (cases "http_get e (length (requested w)) (OPEN_CNPJA_BASE @ ''/'' @ c)")
  case (Raises x)
  with assms show ?thesis by (simp add: attempt_body_def Let_def)
next
  case (Returns resp)
  show ?thesis
  proof (cases "status_code resp \<ge> 400")
    case True
    with assms Returns show ?thesis
      by (auto simp: attempt_body_def Let_def row_ok_error msgs_nonempty split: if_splits)
  next
    case False
    with assms Returns obtain j where "parse_payload c now j = Inr r"
      by (auto simp: attempt_body_def Let_def split: if_splits sum.splits)
    then show ?thesis
      using parse_payload_Inr [of c now j r] by (auto simp: row_ok_def)
  qed
qed

lemma retry_loop_row_ok:
  "retry_loop e c now uc attempts le attempt w = (Inr r, w') \<Longrightarrow> row_ok c now r"
proof (induction e c now uc attempts le attempt w rule: retry_loop.induct)
  case (1 e c now uc attempts le attempt w)
  show ?case
  proof (cases "attempt > attempts")
    case True
    with "1.prems" show ?thesis
      by (subst (asm) retry_loop.simps) (auto simp: row_ok_error)
  next
    case False
    show ?thesis
    proof (cases "attempt_body e c now uc attempts attempt w")
      case (Continue le' w1)
      with False "1.prems" "1.IH"(1) show ?thesis
        by (subst (asm) retry_loop.simps) auto
    next
      case (Return r' w1)
      with False "1.prems" attempt_body_Return show ?thesis
        by (subst (asm) retry_loop.simps) auto
    next
      case (Raise x w1)
      with False "1.prems" "1.IH"(2) show ?thesis
        by (subst (asm) retry_loop.simps)
           (auto simp: row_ok_error msgs_nonempty split: exn.splits if_splits)
    qed
  qed
qed



lemma row_ok_fields:
  assumes "row_ok c now r"
  shows "data_consulta r = now \<and> \<not> cached r \<and> cnpj r = c"
proof -
  from assms consider (ok) j where "parse_payload c now j = Inr r"
    | (err) "r = error_row c now (erro r)"
    by (auto simp: row_ok_def)
  then show ?thesis
  proof cases
    case ok
    then show ?thesis using parse_payload_Inr by blast
  next
    case err
    have "data_consulta (error_row c now (erro r)) = now"
         "\<not> cached (error_row c now (erro r))"
         "cnpj (error_row c now (erro r)) = c"
      by (simp_all add: error_row_def)
    with err show ?thesis by metis
  qed
qed





text \<open>Claim C3. When the input, stripped of its non-digit characters, does not have exactly 14
  digits, \<open>consultar_optante\<close> returns at once the error row with the invalid-identifier message
  and leaves the world as it was: no request, no sleep, no write to the cache.\<close>

theorem invalid_identifier_no_network:
  assumes "length (clean_cnpj c) \<noteq> 14"
  shows "consultar_optante e c use_cache ttl max_retries w =
           (Inr (error_row (clean_cnpj c) (strftime e (clock w)) msg_invalid), w)
         \<and> msg_invalid \<noteq> []"
  using assms by (simp add: consultar_optante_def fullmatch_d14_def msgs_nonempty)

theorem invalid_identifier_no_network_witness:
  "length (clean_cnpj ''1234567000199'') \<noteq> 14 \<and>
   consultar_optante ex_env_429 ''1234567000199'' True 86400 3 ex_world =
     (Inr (error_row ''1234567000199'' ''2024-01-01 00:00:00'' msg_invalid), ex_world)"
proof -
  have h: "length (clean_cnpj ''1234567000199'') \<noteq> 14" by code_simp
  have c: "clean_cnpj ''1234567000199'' = ''1234567000199''" by code_simp
  have s: "strftime ex_env_429 (clock ex_world) = ''2024-01-01 00:00:00''"
    by (simp add: ex_env_429_def ex_world_def)
  show ?thesis
    using h invalid_identifier_no_network [OF h, of ex_env_429 True 86400 3 ex_world]
    by (simp add: c s)
qed

text \<open>Claim C4. In an attempt whose response has status 429, the wait is read from the
  \<open>Retry-After\<close> header (60 when the header is absent, when \<open>float\<close> rejects it and when its
  value is not finite, else its value truncated); when attempts remain the loop sleeps that wait clamped to 1..90 and goes on with the
  next attempt, and on the last attempt it returns the error row with the rate-limit message.\<close>

theorem rate_limit_retry:
  assumes "http_get e (length (requested w)) (OPEN_CNPJA_BASE @ ''/'' @ c) = Returns r"
      and "status_code r = 429"
      and "attempt \<le> attempts"
  shows "retry_loop e c now uc attempts le attempt w =
           (if attempt < attempts
            then retry_loop e c now uc attempts msg_rate_limit (Suc attempt)
                   (time_sleep (of_int (max 1 (min 90 (retry_wait e (retry_after r)))))
                      (w\<lparr>requested := requested w @ [OPEN_CNPJA_BASE @ ''/'' @ c]\<rparr>))
            else (Inr (error_row c now msg_rate_limit),
                  w\<lparr>requested := requested w @ [OPEN_CNPJA_BASE @ ''/'' @ c]\<rparr>))
         \<and> (retry_after r = None \<longrightarrow> retry_wait e (retry_after r) = 60)
         \<and> (\<forall>s. retry_after r = Some s \<and> py_float e s = None
                \<longrightarrow> retry_wait e (retry_after r) = 60)
         \<and> (\<forall>s f. retry_after r = Some s \<and> py_float e s = Some f \<and> f \<in> {PosInf, NegInf, NaN}
                \<longrightarrow> retry_wait e (retry_after r) = 60)
         \<and> (\<forall>s x. retry_after r = Some s \<and> s \<noteq> [] \<and> py_float e s = Some (Finite x)
                \<longrightarrow> retry_wait e (retry_after r) = py_trunc x)"
  using assms
  by (subst retry_loop.simps) (auto simp: attempt_body_def Let_def retry_wait_def)

theorem rate_limit_retry_witness:
  "http_get ex_env_429 (length (requested ex_world)) (OPEN_CNPJA_BASE @ ''/'' @ ''12345678000195'')
     = Returns ex_resp_429
   \<and> status_code ex_resp_429 = 429 \<and> (1::nat) \<le> 3
   \<and> retry_loop ex_env_429 ''12345678000195'' ''2024-01-01 00:00:00'' True 3 [] 1 ex_world =
       retry_loop ex_env_429 ''12345678000195'' ''2024-01-01 00:00:00'' True 3 msg_rate_limit (Suc 1)
         (time_sleep 7
            (ex_world\<lparr>requested := requested ex_world
                          @ [OPEN_CNPJA_BASE @ ''/'' @ ''12345678000195'']\<rparr>))"
proof -
  have h1: "http_get ex_env_429 (length (requested ex_world))
              (OPEN_CNPJA_BASE @ ''/'' @ ''12345678000195'') = Returns ex_resp_429"
    by (simp add: ex_env_429_def ex_world_def ex_resp_429_def)
  have h2: "status_code ex_resp_429 = 429" by (simp add: ex_resp_429_def)
  have h3: "(1::nat) \<le> 3" by simp
  have w: "retry_wait ex_env_429 (retry_after ex_resp_429) = 7"
    by (simp add: retry_wait_def ex_env_429_def ex_resp_429_def py_trunc_def)
  show ?thesis
    using h1 h2 rate_limit_retry [OF h1 h2 h3, of "''2024-01-01 00:00:00''" True "[]"]
    by (simp add: w)
qed

text \<open>Claim C5 as stated fails for an entry written when the clock reads 0: its age exceeds the
  ttl and it is still returned.\<close>

theorem cache_expiry_counterexample:
  "86400 < py_trunc 90000 - py_trunc (clock ex_world_epoch) \<and>
   cache_get (cnpj ex_payload) 86400 ((cache_set ex_payload ex_world_epoch)\<lparr>clock := 90000\<rparr>) =
     Some (ex_payload\<lparr>cached := True\<rparr>)"
  by code_simp

text \<open>Claim C5, amended. A payload with a 14-digit \<open>cnpj\<close> written by \<open>_cache_set\<close> is read back
  by \<open>_cache_get\<close> with the same name, flags and \<open>data_consulta\<close>, an empty \<open>erro\<close> and the cache
  flag set, as long as the ttl is not positive or the age is at most the ttl; it is absent once
  the age exceeds a positive ttl, provided it was written at a positive \<open>fetched_at\<close>. For any
  entry, a ttl that is not positive never expires it, nor does a \<open>fetched_at\<close> that is missing or
  not positive, and a positive \<open>fetched_at\<close> older than a positive ttl makes it absent.\<close>

theorem cache_round_trip:
  assumes "fullmatch_d14 (cnpj p)"
  shows "(ttl \<le> 0 \<or> py_trunc t - py_trunc (clock w) \<le> ttl \<longrightarrow>
            cache_get (cnpj p) ttl ((cache_set p w)\<lparr>clock := t\<rparr>) =
              Some \<lparr>cnpj = cnpj p, razao_social = razao_social p,
                    simples_nacional = simples_nacional p, simei = simei p,
                    data_consulta = data_consulta p, erro = [], cached = True\<rparr>)
       \<and> (0 < ttl \<and> 0 < py_trunc (clock w) \<and> ttl < py_trunc t - py_trunc (clock w) \<longrightarrow>
            cache_get (cnpj p) ttl ((cache_set p w)\<lparr>clock := t\<rparr>) = None)
       \<and> (\<forall>k row. cache w k = Some row \<and> ttl \<le> 0 \<longrightarrow> cache_get k ttl w \<noteq> None)
       \<and> (\<forall>k row. cache w k = Some row
              \<and> (c_fetched_at row = None \<or> (\<exists>f. c_fetched_at row = Some f \<and> f \<le> 0))
              \<longrightarrow> cache_get k ttl w \<noteq> None)
       \<and> (\<forall>k row f. cache w k = Some row \<and> c_fetched_at row = Some f \<and> 0 < f \<and> 0 < ttl
              \<and> ttl < py_trunc (clock w) - f \<longrightarrow> cache_get k ttl w = None)"
  using assms
  by (auto simp: cache_get_def cache_set_def or_empty_def Let_def split: option.splits)

theorem cache_round_trip_witness:
  "fullmatch_d14 (cnpj ex_payload) \<and>
   cache_get (cnpj ex_payload) 86400 ((cache_set ex_payload ex_world)\<lparr>clock := 500\<rparr>) =
     Some (ex_payload\<lparr>cached := True\<rparr>) \<and>
   cache_get (cnpj ex_payload) 86400 ((cache_set ex_payload ex_world)\<lparr>clock := 90000\<rparr>) = None"
proof -
  have h: "fullmatch_d14 (cnpj ex_payload)" by code_simp
  have c: "py_trunc (clock ex_world) = 100" "py_trunc 500 = 500" "py_trunc 90000 = 90000"
    by (simp_all add: py_trunc_def ex_world_def)
  show ?thesis
    using h cache_round_trip [OF h, of 86400 500 ex_world]
      cache_round_trip [OF h, of 86400 90000 ex_world]
    by (simp add: c ex_payload_def)
qed

text \<open>Claim C9 as stated fails on a cache hit: the row carries the stored timestamp, not the
  current one.\<close>

theorem queried_at_cache_hit_counterexample:
  "fst (consultar_optante ex_env_429 ex_cnpj True 86400 3 ex_world_cached) =
     Inr \<lparr>cnpj = ''12345678000195'', razao_social = ''ACME'', simples_nacional = ''Sim'',
          simei = [], data_consulta = ''2024-01-01 00:00:00'', erro = [], cached = True\<rparr>
   \<and> strftime ex_env_429 (clock ex_world_cached) = ''2024-01-01 00:10:00''"
  by code_simp

text \<open>Claim C9, amended. A row that is not served from the cache carries the timestamp of this
  call in \<open>data_consulta\<close>; a row served from the cache carries the \<open>data_consulta\<close> stored in the
  cache entry.\<close>

theorem queried_at_of_result:
  assumes "consultar_optante e c uc ttl mr w = (Inr r, w')"
  shows "(\<not> cached r \<longrightarrow> data_consulta r = strftime e (clock w)) \<and>
         (cached r \<longrightarrow> (\<exists>row. cache w (clean_cnpj c) = Some row \<and>
                           data_consulta r = or_empty (c_data_consulta row)))"
proof (cases "fullmatch_d14 (clean_cnpj c)")
  case False
  with assms show ?thesis
    by (auto simp: consultar_optante_def error_row_def)
next
  case True
  show ?thesis
  proof (cases "if uc then cache_get (clean_cnpj c) ttl w else None")
    case (Some hit)
    with assms True have r: "r = hit" and g: "cache_get (clean_cnpj c) ttl w = Some r"
      by (auto simp: consultar_optante_def Let_def split: if_splits)
    from g show ?thesis
      by (auto simp: cache_get_def Let_def split: option.splits if_splits)
  next
    case None
    with assms True have
      "retry_loop e (clean_cnpj c) (strftime e (clock w)) uc (nat (max 1 mr)) [] 1 w = (Inr r, w')"
      by (simp add: consultar_optante_def Let_def)
    then have "row_ok (clean_cnpj c) (strftime e (clock w)) r"
      by (rule retry_loop_row_ok)
    then show ?thesis
      using row_ok_fields by blast
  qed
qed

theorem queried_at_of_result_witness:
  "\<exists>r w'. consultar_optante ex_env_429 ex_cnpj True 86400 3 ex_world = (Inr r, w')
      \<and> \<not> cached r \<and> data_consulta r = strftime ex_env_429 (clock ex_world)"
proof -
  have f: "fst (consultar_optante ex_env_429 ex_cnpj True 86400 3 ex_world) =
             Inr \<lparr>cnpj = ''12345678000195'', razao_social = ''ACME'', simples_nacional = ''Sim'',
                  simei = [], data_consulta = ''2024-01-01 00:00:00'', erro = [], cached = False\<rparr>"
    by code_simp
  then obtain r w' where h: "consultar_optante ex_env_429 ex_cnpj True 86400 3 ex_world = (Inr r, w')"
    and c: "\<not> cached r"
    by (cases "consultar_optante ex_env_429 ex_cnpj True 86400 3 ex_world") auto
  from queried_at_of_result [OF h] c h show ?thesis by blast
qed

section \<open>Properties of the batch runner\<close>

lemma tick_fields [simp]:
  "resultados (tick cb tot s) = resultados s" "done_n (tick cb tot s) = done_n s"
  "polls (tick cb tot s) = polls s" "wld (tick cb tot s) = wld s"
  by (simp_all add: tick_def split: option.splits)

lemma poll_cancel_fields:
  assumes "poll_cancel sc s = (b, s1)"
  shows "resultados s1 = resultados s" "done_n s1 = done_n s" "wld s1 = wld s" "cbs s1 = cbs s"
  using assms by (auto simp: poll_cancel_def split: option.splits)








section \<open>Properties of the job manager\<close>

text \<open>Claim C8. On a job whose \<open>done\<close> flag is set, \<open>cancelar\<close> changes nothing and answers with the
  job's status; on a job that is not done it sets the event, answers \<open>canceling\<close>, and moves the
  status to \<open>canceling\<close> only from \<open>queued\<close> or \<open>running\<close>.\<close>

theorem cancelar_done_noop:
  assumes "JOBS job_id = Some j"
  shows "(job_done j \<longrightarrow> cancelar job_id JOBS = Inr (job_status j, JOBS)) \<and>
         (\<not> job_done j \<longrightarrow>
            cancelar job_id JOBS =
              Inr (Canceling,
                   JOBS(job_id \<mapsto> j\<lparr>job_cancel_event := True,
                                       job_status := (if job_status j = Queued \<or> job_status j = Running
                                                      then Canceling else job_status j)\<rparr>)))"
  using assms by (simp add: cancelar_def Let_def)

theorem cancelar_done_noop_witness:
  "ex_jobs ''a'' = Some ex_job_done \<and> job_done ex_job_done \<and>
   cancelar ''a'' ex_jobs = Inr (Done, ex_jobs) \<and>
   ex_jobs ''b'' = Some ex_job_running \<and> \<not> job_done ex_job_running \<and>
   cancelar ''b'' ex_jobs =
     Inr (Canceling, ex_jobs(''b'' \<mapsto> ex_job_running\<lparr>job_cancel_event := True, job_status := Canceling\<rparr>))"
proof -
  have a: "ex_jobs ''a'' = Some ex_job_done" by (simp add: ex_jobs_def)
  have b: "ex_jobs ''b'' = Some ex_job_running" by (simp add: ex_jobs_def)
  show ?thesis
    using a b cancelar_done_noop [of ex_jobs "''a''" ex_job_done]
      cancelar_done_noop [of ex_jobs "''b''" ex_job_running]
    by (simp add: ex_job_done_def ex_job_running_def)
qed

lemma lote_loop_inv:
  assumes step: "\<And>d st. I d st \<Longrightarrow> Suc d \<le> tot \<Longrightarrow> I (Suc d) (snd (cb (Suc d) tot st))"
      and "I (done_n s) (cbs s)"
      and "done_n s + length xs + m \<le> tot"
  shows "I (done_n (snd (lote_loop e sl (Some cb) sc tot xs s)))
           (cbs (snd (lote_loop e sl (Some cb) sc tot xs s))) \<and>
         done_n (snd (lote_loop e sl (Some cb) sc tot xs s)) + m \<le> tot"
  using assms(2,3)
proof (induction xs arbitrary: s)
  case Nil
  then show ?case by simp
next
  case (Cons c cs)
  obtain b s1 where ps: "poll_cancel sc s = (b, s1)" by (cases "poll_cancel sc s")
  note f = poll_cancel_fields [OF ps]
  show ?case
  proof (cases b)
    case True
    with ps f Cons.prems show ?thesis by simp
  next
    case False
    obtain res w' where l: "consultar_optante e c True (DEFAULT_CACHE_TTL_SECONDS e) 3 (wld s1) = (res, w')"
      by (cases "consultar_optante e c True (DEFAULT_CACHE_TTL_SECONDS e) 3 (wld s1)")
    show ?thesis
    proof (cases res)
      case (Inl x)
      with ps False l f Cons.prems show ?thesis by simp
    next
      case (Inr r)
      define s3 where "s3 = tick (Some cb) tot (s1\<lparr>wld := w',
          resultados := resultados s1 @ [result_row.truncate r], done_n := Suc (done_n s1)\<rparr>)"
      define s4 where "s4 = (if \<not> cached r then s3\<lparr>wld := time_sleep (max 0 sl) (wld s3)\<rparr> else s3)"
      have d4: "done_n s4 = Suc (done_n s)" and c4: "cbs s4 = snd (cb (Suc (done_n s)) tot (cbs s))"
        using f by (simp_all add: s4_def s3_def tick_def)
      have "I (done_n s4) (cbs s4)"
        unfolding d4 c4 using Cons.prems by (intro step) simp_all
      moreover have "done_n s4 + length cs + m \<le> tot"
        using Cons.prems by (simp add: d4)
      ultimately have "I (done_n (snd (lote_loop e sl (Some cb) sc tot cs s4)))
           (cbs (snd (lote_loop e sl (Some cb) sc tot cs s4))) \<and>
         done_n (snd (lote_loop e sl (Some cb) sc tot cs s4)) + m \<le> tot"
        by (rule Cons.IH)
      moreover have "lote_loop e sl (Some cb) sc tot (c # cs) s = lote_loop e sl (Some cb) sc tot cs s4"
        using ps False l Inr by (simp add: s4_def s3_def Let_def)
      ultimately show ?thesis by simp
    qed
  qed
qed

lemma invalid_loop_inv:
  assumes step: "\<And>d st. I d st \<Longrightarrow> Suc d \<le> tot \<Longrightarrow> I (Suc d) (snd (cb (Suc d) tot st))"
      and "I (done_n s) (cbs s)"
      and "done_n s + length rows \<le> tot"
  shows "I (done_n (invalid_loop e (Some cb) tot rows s)) (cbs (invalid_loop e (Some cb) tot rows s)) \<and>
         done_n (invalid_loop e (Some cb) tot rows s) \<le> tot"
  using assms(2,3)
proof (induction rows arbitrary: s)
  case Nil
  then show ?case by simp
next
  case (Cons row rows)
  define s1 where "s1 = tick (Some cb) tot (s\<lparr>resultados := resultados s @
                   [\<lparr>cnpj = (if inv_cnpj row \<noteq> [] then inv_cnpj row else inv_cnpj_input row),
                     razao_social = [], simples_nacional = [], simei = [],
                     data_consulta = strftime e (clock (wld s)),
                     erro = msg_invalid\<rparr>],
                 done_n := Suc (done_n s)\<rparr>)"
  have d1: "done_n s1 = Suc (done_n s)" and c1: "cbs s1 = snd (cb (Suc (done_n s)) tot (cbs s))"
    by (simp_all add: s1_def tick_def)
  have "I (done_n s1) (cbs s1)"
    unfolding d1 c1 using Cons.prems by (intro step) simp_all
  moreover have "done_n s1 + length rows \<le> tot"
    using Cons.prems by (simp add: d1)
  ultimately have "I (done_n (invalid_loop e (Some cb) tot rows s1))
      (cbs (invalid_loop e (Some cb) tot rows s1)) \<and>
         done_n (invalid_loop e (Some cb) tot rows s1) \<le> tot"
    by (rule Cons.IH)
  then show ?case by (simp add: Let_def s1_def)
qed

lemma consultar_optante_lote_inv:
  assumes step: "\<And>d st. I d st \<Longrightarrow> Suc d \<le> total_of df \<Longrightarrow>
                   I (Suc d) (snd (cb (Suc d) (total_of df) st))"
      and init: "I 0 (snd (cb 0 (total_of df) st))"
  shows "I (done_n (snd (consultar_optante_lote e df sl (Some cb) sc w st)))
           (cbs (snd (consultar_optante_lote e df sl (Some cb) sc w st))) \<and>
         done_n (snd (consultar_optante_lote e df sl (Some cb) sc w st)) \<le> total_of df"
proof -
  define rows where "rows = (case invalidos_of df of None \<Rightarrow> [] | Some rows \<Rightarrow> rows)"
  have tot: "total_of df = length (cnpjs_of df) + length rows"
    by (simp add: total_of_def rows_def split: option.splits)
  define sl' where "sl' = max PUBLIC_API_MIN_DELAY sl"
  define s0 where "s0 = tick (Some cb) (total_of df)
      \<lparr>resultados = [], done_n = 0, polls = 0, wld = w, cbs = st\<rparr>"
  have i0: "I (done_n s0) (cbs s0)" using init by (simp add: s0_def tick_def)
  have b0: "done_n s0 + length (cnpjs_of df) + length rows \<le> total_of df"
    by (simp add: s0_def tot)
  obtain o1 s1 where l1: "lote_loop e sl' (Some cb) sc (total_of df) (cnpjs_of df) s0 = (o1, s1)"
    by (cases "lote_loop e sl' (Some cb) sc (total_of df) (cnpjs_of df) s0")
  from lote_loop_inv [of I "total_of df" cb s0 "cnpjs_of df" "length rows" e sl' sc, OF step i0 b0] l1
  have i1: "I (done_n s1) (cbs s1)" and b1: "done_n s1 + length rows \<le> total_of df"
    by simp_all
  obtain b s2 where p: "poll_cancel sc s1 = (b, s2)" by (cases "poll_cancel sc s1")
  note f = poll_cancel_fields [OF p]
  have i2: "I (done_n s2) (cbs s2)" and b2: "done_n s2 + length rows \<le> total_of df"
    using i1 b1 f by simp_all
  from invalid_loop_inv [of I "total_of df" cb s2 rows e, OF step i2 b2]
  have i3: "I (done_n (invalid_loop e (Some cb) (total_of df) rows s2))
              (cbs (invalid_loop e (Some cb) (total_of df) rows s2))"
    and b3: "done_n (invalid_loop e (Some cb) (total_of df) rows s2) \<le> total_of df"
    by simp_all
  have r: "consultar_optante_lote e df sl (Some cb) sc w st =
            (case o1 of Some x \<Rightarrow> (Inl x, s1)
             | None \<Rightarrow> if b then (Inr (resultados s2), s2)
                 else (Inr (resultados (invalid_loop e (Some cb) (total_of df) rows s2)),
                       invalid_loop e (Some cb) (total_of df) rows s2))"
    using l1 p
    by (simp add: consultar_optante_lote_def Let_def total_of_def [symmetric] sl'_def [symmetric]
        s0_def [symmetric] rows_def [symmetric] split: option.splits)
  show ?thesis
    unfolding r using i1 b1 i2 b2 i3 b3 by (auto split: option.splits)
qed

lemma job_progress_cb_step:
  assumes "\<exists>j. JOBS job_id = Some j \<and> job_total j = tot \<and> job_progress j = d"
  shows "\<exists>j. snd (job_progress_cb job_id d' tot JOBS) job_id = Some j \<and> job_total j = tot \<and>
             job_progress j = d'"
  using assms by (auto simp: job_progress_cb_def)

lemma job_progress_cb_init:
  assumes "JOBS job_id = Some j"
  shows "\<exists>j. snd (job_progress_cb job_id d tot JOBS) job_id = Some j \<and> job_total j = tot \<and>
             job_progress j = d"
  using assms by (auto simp: job_progress_cb_def)

lemma job_failed_keeps_progress:
  assumes "JOBS job_id = Some j"
  shows "\<exists>J j'. job_failed job_id x JOBS = Inr J \<and> J job_id = Some j' \<and>
           job_total j' = job_total j \<and> job_progress j' = job_progress j \<and>
           job_status j' = Error \<and> job_done j'"
  using assms by (simp add: job_failed_def)

lemma processar_job_progress:
  assumes "JOBS job_id = Some j"
  shows "\<exists>J j'. fst (processar_job e job_id df output sl ev JOBS w) = Inr J \<and>
           J job_id = Some j' \<and> job_total j' = total_of df \<and> job_progress j' \<le> job_total j' \<and>
           job_done j'"
proof -
  define I where "I = (\<lambda>d (J :: jobs). \<exists>j. J job_id = Some j \<and> job_total j = total_of df \<and>
                                         job_progress j = d)"
  define run where "run = consultar_optante_lote e df sl (Some (job_progress_cb job_id)) (Some ev) w
                  (JOBS(job_id \<mapsto> j\<lparr>job_status := Running\<rparr>))"
  have step: "\<And>d st. I d st \<Longrightarrow> Suc d \<le> total_of df \<Longrightarrow>
                I (Suc d) (snd (job_progress_cb job_id (Suc d) (total_of df) st))"
    unfolding I_def by (rule job_progress_cb_step)
  have init: "I 0 (snd (job_progress_cb job_id 0 (total_of df)
                     (JOBS(job_id \<mapsto> j\<lparr>job_status := Running\<rparr>))))"
    unfolding I_def by (rule job_progress_cb_init) simp
  from consultar_optante_lote_inv [of I df "job_progress_cb job_id", OF step init, of e sl "Some ev" w]
  have inv: "I (done_n (snd run)) (cbs (snd run))" and le: "done_n (snd run) \<le> total_of df"
    by (simp_all add: run_def)
  then obtain j1 where j1: "cbs (snd run) job_id = Some j1" "job_total j1 = total_of df"
    "job_progress j1 \<le> total_of df"
    by (auto simp: I_def)
  obtain res s where rs: "run = (res, s)" by (cases run)
  with j1 have js: "cbs s job_id = Some j1" by simp
  have fail: "\<exists>J j'. job_failed job_id x (cbs s) = Inr J \<and> J job_id = Some j' \<and>
           job_total j' = total_of df \<and> job_progress j' \<le> job_total j' \<and> job_done j'" for x
    using job_failed_keeps_progress [where JOBS = "cbs s" and job_id = job_id and j = j1 and x = x]
      js j1 by auto
  show ?thesis
  proof (cases res)
    case (Inl x)
    with assms rs fail [of x] show ?thesis
      by (simp add: processar_job_def run_def [symmetric])
  next
    case r: (Inr df_out)
    show ?thesis
    proof (cases "build_output_bytes df_out output")
      case (Inl x)
      with assms rs r fail [of x] show ?thesis
        by (simp add: processar_job_def run_def [symmetric])
    next
      case b: (Inr fb)
      with assms rs r js j1 show ?thesis
        by (simp add: processar_job_def run_def [symmetric] Let_def)
    qed
  qed
qed

lemma record_cb_sorted:
  "sorted (map fst (cbs (snd (consultar_optante_lote e df sl (Some record_cb) sc w [])))) \<and>
   (\<forall>p \<in> set (cbs (snd (consultar_optante_lote e df sl (Some record_cb) sc w []))).
      fst p \<le> snd p \<and> snd p = total_of df)"
proof -
  define I where "I = (\<lambda>d (reported :: (nat \<times> nat) list). sorted (map fst reported) \<and>
                        (\<forall>p \<in> set reported. fst p \<le> d \<and> snd p = total_of df))"
  have step: "\<And>d st. I d st \<Longrightarrow> Suc d \<le> total_of df \<Longrightarrow>
                I (Suc d) (snd (record_cb (Suc d) (total_of df) st))"
    unfolding I_def by (auto simp: record_cb_def sorted_append le_SucI)
  have init: "I 0 (snd (record_cb 0 (total_of df) []))"
    by (simp add: I_def record_cb_def)
  from consultar_optante_lote_inv [of I df record_cb, OF step init, of e sl sc w]
  show ?thesis unfolding I_def by fastforce
qed

text \<open>Claim C7. The \<open>(done, total)\<close> pairs a run reports to its callback have non-decreasing
  \<open>done\<close>, never above \<open>total\<close>, and \<open>total\<close> is always the number of valid identifiers plus the
  number of invalid rows; the job created by \<open>criar_lote\<close> starts with that total and progress 0,
  and a job that \<open>processar_job\<close> has run ends with that total and a progress not above it.\<close>

theorem progress_monotone:
  "sorted (map fst (cbs (snd (consultar_optante_lote e df sl (Some record_cb) sc w [])))) \<and>
   (\<forall>p \<in> set (cbs (snd (consultar_optante_lote e df sl (Some record_cb) sc w []))).
      fst p \<le> snd p \<and> snd p = total_of df) \<and>
   (\<forall>J sched. criar_lote output sl d job_id JOBS0 = Inr (J, sched) \<longrightarrow>
      (\<exists>j. J job_id = Some j \<and> job_total j = total_of (Some d) \<and> job_progress j = 0)) \<and>
   (\<forall>j. JOBS job_id = Some j \<longrightarrow>
      (\<exists>J j'. fst (processar_job e job_id df output sl ev JOBS w) = Inr J \<and>
           J job_id = Some j' \<and> job_total j' = total_of df \<and> job_progress j' \<le> job_total j'))"
proof -
  have "\<exists>j. J job_id = Some j \<and> job_total j = total_of (Some d) \<and> job_progress j = 0"
    if "criar_lote output sl d job_id JOBS0 = Inr (J, sched)" for J sched
    using that
    by (auto simp: criar_lote_def Let_def total_of_def invalidos_of_def split: if_splits)
  moreover have "\<exists>J j'. fst (processar_job e job_id df output sl ev JOBS w) = Inr J \<and>
           J job_id = Some j' \<and> job_total j' = total_of df \<and> job_progress j' \<le> job_total j'"
    if "JOBS job_id = Some j" for j
    using that processar_job_progress [where JOBS = JOBS and job_id = job_id and j = j
        and e = e and df = df and ?output = "output" and sl = sl and ev = ev and w = w]
    by blast
  ultimately show ?thesis
    using record_cb_sorted [of e df sl sc w] by blast
qed

theorem progress_monotone_witness:
  "cbs (snd (consultar_optante_lote ex_env_ok (Some ex_df_mixed) 12.5 (Some record_cb) None
               ex_world [])) = [(0, 2), (1, 2), (2, 2)] \<and>
   total_of (Some ex_df_mixed) = 2 \<and>
   [''j1'' \<mapsto> ex_job_queued] ''j1'' = Some ex_job_queued \<and>
   (\<exists>J j'. fst (processar_job ex_env_ok ''j1'' (Some ex_df_mixed) ''csv'' 12.5 (\<lambda>n. False)
                  [''j1'' \<mapsto> ex_job_queued] ex_world) = Inr J \<and>
           J ''j1'' = Some j' \<and> job_total j' = 2 \<and> job_progress j' \<le> job_total j')"
proof -
  have v: "cbs (snd (consultar_optante_lote ex_env_ok (Some ex_df_mixed) 12.5 (Some record_cb) None
               ex_world [])) = [(0, 2), (1, 2), (2, 2)]"
    by code_simp
  have t: "total_of (Some ex_df_mixed) = 2" by code_simp
  have j: "[''j1'' \<mapsto> ex_job_queued] ''j1'' = Some ex_job_queued" by simp
  from progress_monotone [where e = ex_env_ok and df = "Some ex_df_mixed" and sl = "12.5"
      and sc = None and w = ex_world and ?output = "''csv''" and d = ex_df_mixed
      and job_id = "''j1''" and ?JOBS0.0 = Map.empty and JOBS = "[''j1'' \<mapsto> ex_job_queued]"
      and ev = "\<lambda>n. False"]
  show ?thesis using v t j by simp
qed

lemma lote_loop_prefix:
  assumes "resultados s = resultados t" "done_n s = done_n t" "wld s = wld t"
      and "\<forall>n. polls s \<le> n \<and> n < polls s + length xs \<longrightarrow> \<not> ev n"
      and "lote_loop e sl None None tot' xs t = (None, t1)"
  shows "\<exists>s1. lote_loop e sl cb (Some ev) tot (xs @ ys) s = lote_loop e sl cb (Some ev) tot ys s1
            \<and> resultados s1 = resultados t1 \<and> done_n s1 = done_n t1 \<and> wld s1 = wld t1
            \<and> polls s1 = polls s + length xs
            \<and> length (resultados t1) = length (resultados t) + length xs"
  using assms
proof (induction xs arbitrary: s t)
  case Nil
  then show ?case by (intro exI [of _ s]) simp
next
  case (Cons c cs)
  have nev: "\<not> ev (polls s)" using Cons.prems(4) by simp
  obtain res w' where l: "consultar_optante e c True (DEFAULT_CACHE_TTL_SECONDS e) 3 (wld t) = (res, w')"
    by (cases "consultar_optante e c True (DEFAULT_CACHE_TTL_SECONDS e) 3 (wld t)")
  show ?case
  proof (cases res)
    case (Inl x)
    with l Cons.prems(5) show ?thesis by (simp add: poll_cancel_def)
  next
    case (Inr r)
    define t4 where "t4 = (let s2 = t\<lparr>wld := w', resultados := resultados t @ [result_row.truncate r],
                            done_n := Suc (done_n t)\<rparr>;
                    s3 = tick None tot' s2
                in (if \<not> cached r then s3\<lparr>wld := time_sleep (max 0 sl) (wld s3)\<rparr> else s3))"
    define s4 where "s4 = (let s2 = s\<lparr>polls := Suc (polls s), wld := w',
                            resultados := resultados s @ [result_row.truncate r],
                            done_n := Suc (done_n s)\<rparr>;
                    s3 = tick cb tot s2
                in (if \<not> cached r then s3\<lparr>wld := time_sleep (max 0 sl) (wld s3)\<rparr> else s3))"
    have lt: "lote_loop e sl None None tot' (c # cs) t = lote_loop e sl None None tot' cs t4"
      using l Inr by (simp add: poll_cancel_def t4_def Let_def)
    have ls: "lote_loop e sl cb (Some ev) tot ((c # cs) @ ys) s =
                lote_loop e sl cb (Some ev) tot (cs @ ys) s4"
      using l Inr nev Cons.prems(3) by (simp add: poll_cancel_def s4_def Let_def)
    have f: "resultados s4 = resultados t4" "done_n s4 = done_n t4" "wld s4 = wld t4"
      using Cons.prems(1,2,3) by (simp_all add: s4_def t4_def Let_def)
    have p4: "polls s4 = Suc (polls s)" by (simp add: s4_def Let_def)
    have n4: "\<forall>n. polls s4 \<le> n \<and> n < polls s4 + length cs \<longrightarrow> \<not> ev n"
      using Cons.prems(4) by (simp add: p4)
    have r4: "lote_loop e sl None None tot' cs t4 = (None, t1)"
      using Cons.prems(5) lt by simp
    have len4: "length (resultados t4) = Suc (length (resultados t))"
      by (simp add: t4_def Let_def)
    from Cons.IH [OF f n4 r4] ls p4 len4 show ?thesis by simp
  qed
qed

lemma build_output_bytes_ok:
  assumes "py_strip (py_lower output) = ''csv'' \<or> py_strip (py_lower output) = ''xlsx''"
  shows "\<exists>fb. build_output_bytes rows output = Inr fb"
  using assms by (auto simp: build_output_bytes_def Let_def)

lemma cancelled_run:
  assumes k: "1 \<le> k" "k \<le> length (cnpjs_of df)"
      and before: "\<forall>n < k - 1. \<not> ev n"
      and after: "\<forall>n \<ge> k - 1. ev n"
      and prefix: "lote_loop e (max PUBLIC_API_MIN_DELAY sl) None None 0 (take (k - 1) (cnpjs_of df))
                     \<lparr>resultados = [], done_n = 0, polls = 0, wld = w, cbs = ()\<rparr> = (None, t1)"
  shows "length (resultados t1) = k - 1 \<and>
         (\<exists>s2. consultar_optante_lote e df sl cb (Some ev) w st = (Inr (resultados t1), s2) \<and>
               wld s2 = wld t1 \<and> polls s2 = Suc k)"
proof -
  define tot where "tot = length (cnpjs_of df) +
        (case invalidos_of df of None \<Rightarrow> 0 | Some rows \<Rightarrow> length rows)"
  define sl' where "sl' = max PUBLIC_API_MIN_DELAY sl"
  define s0 where "s0 = tick cb tot \<lparr>resultados = [], done_n = 0, polls = 0, wld = w, cbs = st\<rparr>"
  define t0 :: "unit run_state" where
    "t0 = \<lparr>resultados = [], done_n = 0, polls = 0, wld = w, cbs = ()\<rparr>"
  define xs where "xs = take (k - 1) (cnpjs_of df)"
  define ys where "ys = drop (k - 1) (cnpjs_of df)"
  have lx: "length xs = k - 1" using k by (simp add: xs_def)
  have xy: "cnpjs_of df = xs @ ys" by (simp add: xs_def ys_def)
  have "ys \<noteq> []" using k by (simp add: ys_def)
  then obtain c cs where ys: "ys = c # cs" by (cases ys) simp_all
  have p0: "polls s0 = 0" by (simp add: s0_def)
  have nc: "\<forall>n. polls s0 \<le> n \<and> n < polls s0 + length xs \<longrightarrow> \<not> ev n"
    using before by (simp add: p0 lx)
  have pre: "lote_loop e sl' None None 0 xs t0 = (None, t1)"
    using prefix by (simp add: sl'_def xs_def t0_def)
  have f0: "resultados s0 = resultados t0" "done_n s0 = done_n t0" "wld s0 = wld t0"
    by (simp_all add: s0_def t0_def)
  from lote_loop_prefix [OF f0 nc pre, of cb tot ys]
  obtain s1 where s1: "lote_loop e sl' cb (Some ev) tot (xs @ ys) s0 = lote_loop e sl' cb (Some ev) tot ys s1"
    and r1: "resultados s1 = resultados t1" and w1: "wld s1 = wld t1"
    and p1: "polls s1 = k - 1" and len: "length (resultados t1) = k - 1"
    by (auto simp: p0 lx t0_def)
  have e1: "ev (k - 1)" "ev k" "ev (Suc k)" using after by simp_all
  have brk: "lote_loop e sl' cb (Some ev) tot ys s1 = (None, s1\<lparr>polls := k\<rparr>)"
    using e1 p1 k by (simp add: ys poll_cancel_def)
  have whole: "lote_loop e sl' cb (Some ev) tot (cnpjs_of df) s0 = (None, s1\<lparr>polls := k\<rparr>)"
    using s1 brk by (simp add: xy)
  have "consultar_optante_lote e df sl cb (Some ev) w st =
          (Inr (resultados t1), s1\<lparr>polls := Suc k\<rparr>)"
    using whole e1 r1
    by (simp add: consultar_optante_lote_def Let_def tot_def [symmetric] sl'_def [symmetric]
        s0_def [symmetric] poll_cancel_def)
  with len w1 show ?thesis by simp
qed

text \<open>Claim C2. Let the cancellation event be unset at the first \<open>k - 1\<close> readings and set from
  the reading before item \<open>k\<close> on, and let the first \<open>k - 1\<close> lookups return rows (\<open>t1\<close> is the
  state of the loop over these items alone, run without cancellation or callback). Then the run
  returns exactly these \<open>k - 1\<close> rows and no row for an invalid input, and the job ends with
  status \<open>canceled\<close>, \<open>done\<close> set and the file built from these rows, which \<open>download\<close>
  serves.\<close>

theorem cancel_before_item:
  assumes "JOBS job_id = Some j"
      and "1 \<le> k" "k \<le> length (cnpjs_of df)"
      and "\<forall>n < k - 1. \<not> ev n"
      and "\<forall>n \<ge> k - 1. ev n"
      and "lote_loop e (max PUBLIC_API_MIN_DELAY sl) None None 0 (take (k - 1) (cnpjs_of df))
             \<lparr>resultados = [], done_n = 0, polls = 0, wld = w, cbs = ()\<rparr> = (None, t1)"
      and "py_strip (py_lower output) = ''csv'' \<or> py_strip (py_lower output) = ''xlsx''"
  shows "length (resultados t1) = k - 1 \<and>
         fst (consultar_optante_lote e df sl cb (Some ev) w st) = Inr (resultados t1) \<and>
         (\<exists>J j' fb. processar_job e job_id df output sl ev JOBS w = (Inr J, wld t1) \<and>
            J job_id = Some j' \<and> job_status j' = Canceled \<and> job_done j' \<and>
            build_output_bytes (resultados t1) output = Inr fb \<and>
            job_file_bytes j' = Some fb \<and> download job_id J = Inr fb)"
proof -
  note run = cancelled_run [OF assms(2,3,4,5,6)]
  from run [of cb st] have len: "length (resultados t1) = k - 1"
    and r: "fst (consultar_optante_lote e df sl cb (Some ev) w st) = Inr (resultados t1)"
    by auto
  define JOBS1 where "JOBS1 = JOBS(job_id \<mapsto> j\<lparr>job_status := Running\<rparr>)"
  from run [of "Some (job_progress_cb job_id)" JOBS1]
  obtain s2 where s2: "consultar_optante_lote e df sl (Some (job_progress_cb job_id)) (Some ev) w JOBS1
                         = (Inr (resultados t1), s2)"
    and w2: "wld s2 = wld t1" and p2: "polls s2 = Suc k"
    by auto
  define I where "I = (\<lambda>(d :: nat) (J :: jobs). \<exists>j. J job_id = Some j)"
  have step: "\<And>d st. I d st \<Longrightarrow> Suc d \<le> total_of df \<Longrightarrow>
                I (Suc d) (snd (job_progress_cb job_id (Suc d) (total_of df) st))"
    unfolding I_def by (auto simp: job_progress_cb_def)
  have init: "I 0 (snd (job_progress_cb job_id 0 (total_of df) JOBS1))"
    unfolding I_def by (simp add: job_progress_cb_def JOBS1_def)
  from consultar_optante_lote_inv [of I df "job_progress_cb job_id", OF step init, of e sl "Some ev" w]
  obtain j1 where j1: "cbs s2 job_id = Some j1"
    by (auto simp: I_def s2)
  obtain fb where fb: "build_output_bytes (resultados t1) output = Inr fb"
    using build_output_bytes_ok [OF assms(7)] by blast
  have ev2: "ev (polls s2)" using assms(5) p2 by simp
  define j3 where "j3 = j1\<lparr>job_file_bytes := Some fb, job_done := True, job_status := Canceled\<rparr>"
  have "processar_job e job_id df output sl ev JOBS w = (Inr ((cbs s2)(job_id \<mapsto> j3)), wld t1)"
    using assms(1) s2 fb j1 ev2 w2
    by (simp add: processar_job_def JOBS1_def [symmetric] Let_def j3_def)
  moreover have "((cbs s2)(job_id \<mapsto> j3)) job_id = Some j3" by simp
  moreover have "job_status j3 = Canceled" "job_done j3" "job_file_bytes j3 = Some fb"
    by (simp_all add: j3_def)
  moreover have "download job_id ((cbs s2)(job_id \<mapsto> j3)) = Inr fb"
    by (simp add: download_def j3_def)
  ultimately show ?thesis using len r fb by blast
qed

theorem cancel_before_item_witness:
  "[''j1'' \<mapsto> ex_job_queued] ''j1'' = Some ex_job_queued \<and> (1::nat) \<le> 2 \<and>
   2 \<le> length (cnpjs_of (Some ex_df_two)) \<and> \<not> ex_ev 0 \<and> ex_ev 1 \<and>
   fst (lote_loop ex_env_ok (max PUBLIC_API_MIN_DELAY 12.5) None None 0
          (take (2 - 1) (cnpjs_of (Some ex_df_two))) ex_state) = None \<and>
   py_strip (py_lower ''csv'') = ''csv'' \<and>
   (\<exists>rows J j' fb.
      fst (consultar_optante_lote ex_env_ok (Some ex_df_two) 12.5 (Some record_cb) (Some ex_ev)
             ex_world []) = Inr rows \<and> length rows = 1 \<and>
      fst (processar_job ex_env_ok ''j1'' (Some ex_df_two) ''csv'' 12.5 ex_ev
             [''j1'' \<mapsto> ex_job_queued] ex_world) = Inr J \<and>
      J ''j1'' = Some j' \<and> job_status j' = Canceled \<and> job_done j' \<and>
      job_file_bytes j' = Some fb \<and> download ''j1'' J = Inr fb)"
proof -
  have h1: "[''j1'' \<mapsto> ex_job_queued] ''j1'' = Some ex_job_queued" by simp
  have h2: "(1::nat) \<le> 2" by simp
  have h3: "2 \<le> length (cnpjs_of (Some ex_df_two))" by code_simp
  have h4: "\<forall>n < 2 - 1. \<not> ex_ev n" by (simp add: ex_ev_def)
  have h5: "\<forall>n \<ge> 2 - 1. ex_ev n" by (simp add: ex_ev_def)
  have f: "fst (lote_loop ex_env_ok (max PUBLIC_API_MIN_DELAY 12.5) None None 0
          (take (2 - 1) (cnpjs_of (Some ex_df_two))) ex_state) = None"
    by code_simp
  then obtain t1 where h6: "lote_loop ex_env_ok (max PUBLIC_API_MIN_DELAY 12.5) None None 0
          (take (2 - 1) (cnpjs_of (Some ex_df_two)))
          \<lparr>resultados = [], done_n = 0, polls = 0, wld = ex_world, cbs = ()\<rparr> = (None, t1)"
    by (cases "lote_loop ex_env_ok (max PUBLIC_API_MIN_DELAY 12.5) None None 0
          (take (2 - 1) (cnpjs_of (Some ex_df_two))) ex_state") (auto simp: ex_state_def)
  have h7: "py_strip (py_lower ''csv'') = ''csv'' \<or> py_strip (py_lower ''csv'') = ''xlsx''"
    by code_simp
  have c: "py_strip (py_lower ''csv'') = ''csv''" by code_simp
  have e: "\<not> ex_ev 0" "ex_ev 1" by (simp_all add: ex_ev_def)
  from cancel_before_item [where JOBS = "[''j1'' \<mapsto> ex_job_queued]" and job_id = "''j1''"
      and j = ex_job_queued and k = 2 and df = "Some ex_df_two" and ev = ex_ev and e = ex_env_ok
      and sl = "12.5" and w = ex_world and ?t1.0 = t1 and ?output = "''csv''"
      and cb = "Some record_cb" and st = "[]", OF h1 h2 h3 h4 h5 h6 h7]
  obtain J j' fb where
    "length (resultados t1) = 1"
    "fst (consultar_optante_lote ex_env_ok (Some ex_df_two) 12.5 (Some record_cb) (Some ex_ev)
             ex_world []) = Inr (resultados t1)"
    "fst (processar_job ex_env_ok ''j1'' (Some ex_df_two) ''csv'' 12.5 ex_ev
             [''j1'' \<mapsto> ex_job_queued] ex_world) = Inr J"
    "J ''j1'' = Some j'" "job_status j' = Canceled" "job_done j'"
    "job_file_bytes j' = Some fb" "download ''j1'' J = Inr fb"
    by auto
  with h1 h2 h3 f c e show ?thesis by blast
qed

end
